theory Spec2Isabelle
  imports Main
begin

section \<open>Data model\<close>

text \<open>
  The three entity classes of \<^verbatim>\<open>customer.py\<close>, \<^verbatim>\<open>hotel.py\<close> and
  \<^verbatim>\<open>reservation.py\<close>. An object and the dictionary that \<^verbatim>\<open>to_dict\<close> makes of it
  carry the same named fields, so one record stands for both. Room counts are Python
  integers, hence \<^typ>\<open>int\<close>.
\<close>

record customer =
  customer_id :: string
  name :: string
  email :: string
  phone :: string

record hotel =
  hotel_id :: string
  name :: string
  location :: string
  total_rooms :: int
  available_rooms :: int

record reservation =
  reservation_id :: string
  customer_id :: string
  hotel_id :: string
  check_in :: string
  check_out :: string

text \<open>
  Every operation of the source prints a diagnostic and returns \<^verbatim>\<open>None\<close> or
  \<^verbatim>\<open>False\<close> when it fails. The constructors below name the diagnostics:
  \<^item> \<open>NotFound\<close>: \<^verbatim>\<open>"... with ID '...' not found."\<close> (customer and hotel modules)
    and \<^verbatim>\<open>"Reservation '...' not found."\<close>;
  \<^item> \<open>DuplicateKey\<close>: \<^verbatim>\<open>"... with ID '...' already exists."\<close>;
  \<^item> \<open>NoAvailability\<close>: \<^verbatim>\<open>"No available rooms in hotel '...'."\<close>;
  \<^item> \<open>AlreadyFull\<close>: \<^verbatim>\<open>"All rooms already available in hotel '...'."\<close>;
  \<^item> \<open>CustomerNotFound\<close>, \<open>HotelNotFound\<close>: the two referential checks of
    \<^verbatim>\<open>Reservation.create_reservation\<close>.
  A result \<open>Inl e\<close> is the failure value together with diagnostic \<open>e\<close>; \<open>Inr v\<close> is
  the returned object, or \<^verbatim>\<open>True\<close> when \<open>v\<close> is the unit value.
\<close>

datatype error =
  NotFound | DuplicateKey | NoAvailability | AlreadyFull | CustomerNotFound | HotelNotFound

type_synonym 'a result = "error + 'a"

text \<open>
  The persistent state is the content of the three JSON files, each a dictionary from
  an id to a record. Loading reads the whole dictionary and saving replaces it; the
  encoding and the recovery from unreadable files are not modelled (a load returns the
  dictionary last saved, a save always takes effect).
\<close>

record files =
  customers_file :: "string \<rightharpoonup> customer"
  hotels_file :: "string \<rightharpoonup> hotel"
  reservations_file :: "string \<rightharpoonup> reservation"

definition load_customers :: "files \<Rightarrow> (string \<rightharpoonup> customer)" where
  "load_customers s = customers_file s"

definition save_customers :: "(string \<rightharpoonup> customer) \<Rightarrow> files \<Rightarrow> files" where
  "save_customers customers s = s\<lparr>customers_file := customers\<rparr>"

definition load_hotels :: "files \<Rightarrow> (string \<rightharpoonup> hotel)" where
  "load_hotels s = hotels_file s"

definition save_hotels :: "(string \<rightharpoonup> hotel) \<Rightarrow> files \<Rightarrow> files" where
  "save_hotels hotels s = s\<lparr>hotels_file := hotels\<rparr>"

definition load_reservations :: "files \<Rightarrow> (string \<rightharpoonup> reservation)" where
  "load_reservations s = reservations_file s"

definition save_reservations :: "(string \<rightharpoonup> reservation) \<Rightarrow> files \<Rightarrow> files" where
  "save_reservations reservations s = s\<lparr>reservations_file := reservations\<rparr>"

section \<open>Customer\<close>

text \<open>\<^verbatim>\<open>Customer.__init__\<close> followed by \<^verbatim>\<open>to_dict\<close>.\<close>

definition Customer :: "string \<Rightarrow> string \<Rightarrow> string \<Rightarrow> string \<Rightarrow> customer" where
  "Customer cid nm em ph =
     \<lparr>customer.customer_id = cid, customer.name = nm, email = em, phone = ph\<rparr>"

definition create_customer ::
  "string \<Rightarrow> string \<Rightarrow> string \<Rightarrow> string \<Rightarrow> files \<Rightarrow> files \<times> customer result" where
  "create_customer cid nm em ph s =
     (let customers = load_customers s in
      case customers cid of
        Some _ \<Rightarrow> (s, Inl DuplicateKey)
      | None \<Rightarrow>
          let c = Customer cid nm em ph
          in (save_customers (customers(cid \<mapsto> c)) s, Inr c))"

definition delete_customer :: "string \<Rightarrow> files \<Rightarrow> files \<times> unit result" where
  "delete_customer cid s =
     (let customers = load_customers s in
      case customers cid of
        None \<Rightarrow> (s, Inl NotFound)
      | Some _ \<Rightarrow> (save_customers (customers(cid := None)) s, Inr ()))"

text \<open>
  The optional arguments of \<^verbatim>\<open>modify_customer\<close> default to \<^verbatim>\<open>None\<close>; the test
  \<^verbatim>\<open>if name:\<close> holds for a string that is not empty.
\<close>

definition modify_customer ::
  "string \<Rightarrow> string option \<Rightarrow> string option \<Rightarrow> string option \<Rightarrow> files \<Rightarrow> files \<times> unit result"
  where
  "modify_customer cid nm em ph s =
     (let customers = load_customers s in
      case customers cid of
        None \<Rightarrow> (s, Inl NotFound)
      | Some c \<Rightarrow>
          let c1 = (case nm of Some n \<Rightarrow> if n \<noteq> [] then c\<lparr>customer.name := n\<rparr> else c
                    | None \<Rightarrow> c);
              c2 = (case em of Some e \<Rightarrow> if e \<noteq> [] then c1\<lparr>email := e\<rparr> else c1
                    | None \<Rightarrow> c1);
              c3 = (case ph of Some p \<Rightarrow> if p \<noteq> [] then c2\<lparr>phone := p\<rparr> else c2
                    | None \<Rightarrow> c2)
          in (save_customers (customers(cid \<mapsto> c3)) s, Inr ()))"

section \<open>Hotel\<close>

text \<open>\<^verbatim>\<open>Hotel.__init__\<close> followed by \<^verbatim>\<open>to_dict\<close>: all rooms start available.\<close>

definition Hotel :: "string \<Rightarrow> string \<Rightarrow> string \<Rightarrow> int \<Rightarrow> hotel" where
  "Hotel hid nm loc rooms =
     \<lparr>hotel.hotel_id = hid, hotel.name = nm, location = loc,
      total_rooms = rooms, available_rooms = rooms\<rparr>"

definition create_hotel ::
  "string \<Rightarrow> string \<Rightarrow> string \<Rightarrow> int \<Rightarrow> files \<Rightarrow> files \<times> hotel result" where
  "create_hotel hid nm loc rooms s =
     (let hotels = load_hotels s in
      case hotels hid of
        Some _ \<Rightarrow> (s, Inl DuplicateKey)
      | None \<Rightarrow>
          let h = Hotel hid nm loc rooms
          in (save_hotels (hotels(hid \<mapsto> h)) s, Inr h))"

definition delete_hotel :: "string \<Rightarrow> files \<Rightarrow> files \<times> unit result" where
  "delete_hotel hid s =
     (let hotels = load_hotels s in
      case hotels hid of
        None \<Rightarrow> (s, Inl NotFound)
      | Some _ \<Rightarrow> (save_hotels (hotels(hid := None)) s, Inr ()))"

text \<open>
  \<^verbatim>\<open>name\<close> and \<^verbatim>\<open>location\<close> are tested for truth, \<^verbatim>\<open>total_rooms\<close> with
  \<^verbatim>\<open>is not None\<close>. The difference is taken against the stored total before it is
  overwritten.
\<close>

definition modify_hotel ::
  "string \<Rightarrow> string option \<Rightarrow> string option \<Rightarrow> int option \<Rightarrow> files \<Rightarrow> files \<times> unit result"
  where
  "modify_hotel hid nm loc rooms s =
     (let hotels = load_hotels s in
      case hotels hid of
        None \<Rightarrow> (s, Inl NotFound)
      | Some h \<Rightarrow>
          let h1 = (case nm of Some n \<Rightarrow> if n \<noteq> [] then h\<lparr>hotel.name := n\<rparr> else h
                    | None \<Rightarrow> h);
              h2 = (case loc of Some l \<Rightarrow> if l \<noteq> [] then h1\<lparr>location := l\<rparr> else h1
                    | None \<Rightarrow> h1);
              h3 = (case rooms of
                      None \<Rightarrow> h2
                    | Some t \<Rightarrow>
                        let diff = t - total_rooms h2
                        in h2\<lparr>total_rooms := t,
                              available_rooms := max 0 (available_rooms h2 + diff)\<rparr>)
          in (save_hotels (hotels(hid \<mapsto> h3)) s, Inr ()))"

definition reserve_room :: "string \<Rightarrow> files \<Rightarrow> files \<times> unit result" where
  "reserve_room hid s =
     (let hotels = load_hotels s in
      case hotels hid of
        None \<Rightarrow> (s, Inl NotFound)
      | Some h \<Rightarrow>
          if available_rooms h \<le> 0 then (s, Inl NoAvailability)
          else (save_hotels (hotels(hid \<mapsto> h\<lparr>available_rooms := available_rooms h - 1\<rparr>)) s,
                Inr ()))"

definition cancel_room :: "string \<Rightarrow> files \<Rightarrow> files \<times> unit result" where
  "cancel_room hid s =
     (let hotels = load_hotels s in
      case hotels hid of
        None \<Rightarrow> (s, Inl NotFound)
      | Some h \<Rightarrow>
          let avail = available_rooms h; tot = total_rooms h in
          if avail \<ge> tot then (s, Inl AlreadyFull)
          else (save_hotels (hotels(hid \<mapsto> h\<lparr>available_rooms := available_rooms h + 1\<rparr>)) s,
                Inr ()))"

section \<open>Reservation\<close>

text \<open>\<^verbatim>\<open>Reservation.__init__\<close> followed by \<^verbatim>\<open>to_dict\<close>.\<close>

definition Reservation :: "string \<Rightarrow> string \<Rightarrow> string \<Rightarrow> string \<Rightarrow> string \<Rightarrow> reservation" where
  "Reservation rid cid hid ci co =
     \<lparr>reservation_id = rid, customer_id = cid, hotel_id = hid, check_in = ci, check_out = co\<rparr>"

text \<open>
  \<^verbatim>\<open>create_reservation\<close> draws its id from \<^verbatim>\<open>str(uuid.uuid4())[:8]\<close>. The drawn
  value is the first argument \<open>rid\<close> of the model: the source does not compare it with
  the ids already stored, and the assignment \<^verbatim>\<open>reservations[reservation_id] = ...\<close>
  replaces a record that has the same id.
\<close>

definition create_reservation ::
  "string \<Rightarrow> string \<Rightarrow> string \<Rightarrow> string \<Rightarrow> string \<Rightarrow> files \<Rightarrow> files \<times> reservation result"
  where
  "create_reservation rid cid hid ci co s =
     (let customers = load_customers s in
      case customers cid of
        None \<Rightarrow> (s, Inl CustomerNotFound)
      | Some _ \<Rightarrow>
          let hotels = load_hotels s in
          case hotels hid of
            None \<Rightarrow> (s, Inl HotelNotFound)
          | Some _ \<Rightarrow>
              (case reserve_room hid s of
                 (s1, Inl e) \<Rightarrow> (s1, Inl e)
               | (s1, Inr _) \<Rightarrow>
                   let r = Reservation rid cid hid ci co;
                       reservations = load_reservations s1
                   in (save_reservations (reservations(rid \<mapsto> r)) s1, Inr r)))"

text \<open>
  \<^verbatim>\<open>cancel_reservation\<close> loads the reservations, calls \<^verbatim>\<open>Hotel.cancel_room\<close> and
  drops what it returns, then deletes the record and saves.
\<close>

definition cancel_reservation :: "string \<Rightarrow> files \<Rightarrow> files \<times> unit result" where
  "cancel_reservation rid s =
     (let reservations = load_reservations s in
      case reservations rid of
        None \<Rightarrow> (s, Inl NotFound)
      | Some r \<Rightarrow>
          let hid = reservation.hotel_id r;
              s1 = fst (cancel_room hid s)
          in (save_reservations (reservations(rid := None)) s1, Inr ()))"

section \<open>Sequences of reservation calls\<close>

text \<open>
  A caller's sequence of \<^verbatim>\<open>Reservation.create_reservation\<close> and
  \<^verbatim>\<open>Reservation.cancel_reservation\<close> calls. A \<open>Create\<close> carries, first, the id that
  the call draws, then the four arguments of the call. \<open>perform\<close> runs one call and
  tells whether it returned a success value (a reservation, or \<^verbatim>\<open>True\<close>).
\<close>

datatype call =
  Create string string string string string
| Cancel string

fun perform :: "call \<Rightarrow> files \<Rightarrow> files \<times> bool" where
  "perform (Create rid cid hid ci co) s =
     (case create_reservation rid cid hid ci co s of (s', r) \<Rightarrow> (s', \<not> isl r))"
| "perform (Cancel rid) s =
     (case cancel_reservation rid s of (s', r) \<Rightarrow> (s', \<not> isl r))"

fun run :: "call list \<Rightarrow> files \<Rightarrow> files" where
  "run [] s = s"
| "run (c # cs) s = run cs (fst (perform c s))"

fun all_succeed :: "call list \<Rightarrow> files \<Rightarrow> bool" where
  "all_succeed [] s = True"
| "all_succeed (c # cs) s = (snd (perform c s) \<and> all_succeed cs (fst (perform c s)))"

text \<open>
  \<open>fresh_ids\<close>: every id drawn by a \<open>Create\<close> of the sequence is, at the moment of
  its call, not a key of the reservations dictionary.
\<close>

fun draws_fresh :: "call \<Rightarrow> files \<Rightarrow> bool" where
  "draws_fresh (Create rid cid hid ci co) s = (reservations_file s rid = None)"
| "draws_fresh (Cancel rid) s = True"

fun fresh_ids :: "call list \<Rightarrow> files \<Rightarrow> bool" where
  "fresh_ids [] s = True"
| "fresh_ids (c # cs) s = (draws_fresh c s \<and> fresh_ids cs (fst (perform c s)))"

text \<open>
  The live reservations against a hotel are the keys of the reservations dictionary
  whose record names that hotel. \<open>rooms_match\<close> is the round-trip property: the hotel
  is stored, and the rooms it has given out are as many as its live reservations.
\<close>

definition live_reservations :: "string \<Rightarrow> files \<Rightarrow> string set" where
  "live_reservations hid s =
     {rid. \<exists>r. reservations_file s rid = Some r \<and> reservation.hotel_id r = hid}"

definition rooms_match :: "string \<Rightarrow> files \<Rightarrow> bool" where
  "rooms_match hid s =
     (case hotels_file s hid of
        None \<Rightarrow> False
      | Some h \<Rightarrow> total_rooms h - available_rooms h = int (card (live_reservations hid s)))"

definition protocol_inv :: "string \<Rightarrow> files \<Rightarrow> bool" where
  "protocol_inv hid s = (finite (live_reservations hid s) \<and> rooms_match hid s)"

text \<open>
  What a partial update stores in a text field: the argument when it is given and not
  empty, the old value otherwise.
\<close>

definition supplied_or :: "string option \<Rightarrow> string \<Rightarrow> string" where
  "supplied_or arg old = (case arg of None \<Rightarrow> old | Some v \<Rightarrow> if v = [] then old else v)"

section \<open>Sample states\<close>

text \<open>
  \<open>test_files\<close> is the state that \<^verbatim>\<open>TestReservation.setUp\<close> builds: hotel
  \<^verbatim>\<open>H1\<close> with five rooms, customer \<^verbatim>\<open>C1\<close>, no reservation. \<open>full_files\<close> is the
  state of \<^verbatim>\<open>test_create_reservation_no_rooms\<close> after its first reservation: the only
  room of \<^verbatim>\<open>H_FULL\<close> is taken. \<open>stale_files\<close> holds a reservation against a hotel
  all of whose rooms are available. \<open>grand_files\<close> is the state of
  \<^verbatim>\<open>test_modify_hotel_total_rooms\<close> before the modification.
\<close>

definition test_files :: files where
  "test_files =
     \<lparr>customers_file = [''C1'' \<mapsto> Customer ''C1'' ''Alice'' ''alice@mail.com'' ''123''],
      hotels_file = [''H1'' \<mapsto> Hotel ''H1'' ''Grand'' ''NYC'' 5],
      reservations_file = Map.empty\<rparr>"

definition full_files :: files where
  "full_files =
     \<lparr>customers_file = [''C1'' \<mapsto> Customer ''C1'' ''Alice'' ''alice@mail.com'' ''123''],
      hotels_file = [''H_FULL'' \<mapsto> (Hotel ''H_FULL'' ''Tiny'' ''NYC'' 1)\<lparr>available_rooms := 0\<rparr>],
      reservations_file =
        [''1a2b3c4d'' \<mapsto> Reservation ''1a2b3c4d'' ''C1'' ''H_FULL'' ''2025-01-01'' ''2025-01-02'']\<rparr>"

definition stale_files :: files where
  "stale_files =
     \<lparr>customers_file = [''C1'' \<mapsto> Customer ''C1'' ''Alice'' ''alice@mail.com'' ''123''],
      hotels_file = [''H1'' \<mapsto> Hotel ''H1'' ''Grand'' ''NYC'' 5],
      reservations_file =
        [''9f8e7d6c'' \<mapsto> Reservation ''9f8e7d6c'' ''C1'' ''H1'' ''2025-01-01'' ''2025-01-05'']\<rparr>"

definition grand_files :: files where
  "grand_files =
     \<lparr>customers_file = Map.empty,
      hotels_file = [''H1'' \<mapsto> Hotel ''H1'' ''Grand'' ''NYC'' 10],
      reservations_file = Map.empty\<rparr>"

text \<open>
  Two sequences of calls on \<open>test_files\<close>. In \<open>distinct_calls\<close> the two creations draw
  different ids and the first reservation is then cancelled. In \<open>colliding_calls\<close> the
  second creation draws the id of the first.
\<close>

definition distinct_calls :: "call list" where
  "distinct_calls =
     [Create ''1a2b3c4d'' ''C1'' ''H1'' ''2025-01-01'' ''2025-01-05'',
      Create ''5e6f7a8b'' ''C1'' ''H1'' ''2025-02-01'' ''2025-02-05'',
      Cancel ''1a2b3c4d'']"

definition colliding_calls :: "call list" where
  "colliding_calls =
     [Create ''1a2b3c4d'' ''C1'' ''H1'' ''2025-01-01'' ''2025-01-05'',
      Create ''1a2b3c4d'' ''C1'' ''H1'' ''2025-02-01'' ''2025-02-05'']"

section \<open>Properties\<close>

lemmas io_defs = load_customers_def save_customers_def load_hotels_def save_hotels_def
  load_reservations_def save_reservations_def

lemmas sample_defs = test_files_def full_files_def stale_files_def grand_files_def
  Customer_def Hotel_def Reservation_def

subsection \<open>Room inventory\<close>

text \<open>
  Claim C2. \<^verbatim>\<open>Hotel.reserve_room\<close> fails with \<open>NotFound\<close> on an absent id and with
  \<open>NoAvailability\<close> when the hotel has no available room (\<open>available_rooms \<le> 0\<close>),
  and leaves all three dictionaries as they were. Otherwise it succeeds, and the state it
  leaves differs from the old one only in that this hotel's \<open>available_rooms\<close> is one
  less.
\<close>

theorem reserve_room_cases:
  "(hotels_file s hid = None \<longrightarrow> reserve_room hid s = (s, Inl NotFound)) \<and>
   (\<forall>h. hotels_file s hid = Some h \<and> available_rooms h \<le> 0 \<longrightarrow>
      reserve_room hid s = (s, Inl NoAvailability)) \<and>
   (\<forall>h. hotels_file s hid = Some h \<and> 0 < available_rooms h \<longrightarrow>
      reserve_room hid s =
        (s\<lparr>hotels_file := (hotels_file s)(hid \<mapsto> h\<lparr>available_rooms := available_rooms h - 1\<rparr>)\<rparr>,
         Inr ()))"
  by (simp add: reserve_room_def io_defs)

theorem reserve_room_cases_witness:
  "reserve_room ''NONEXISTENT'' test_files = (test_files, Inl NotFound) \<and>
   reserve_room ''H_FULL'' full_files = (full_files, Inl NoAvailability) \<and>
   reserve_room ''H1'' test_files =
     (test_files\<lparr>hotels_file :=
        [''H1'' \<mapsto> \<lparr>hotel.hotel_id = ''H1'', hotel.name = ''Grand'', location = ''NYC'',
                     total_rooms = 5, available_rooms = 4\<rparr>]\<rparr>,
      Inr ())"
proof -
  have a: "hotels_file test_files ''NONEXISTENT'' = None"
    by (simp add: sample_defs)
  have b: "hotels_file full_files ''H_FULL'' =
      Some ((Hotel ''H_FULL'' ''Tiny'' ''NYC'' 1)\<lparr>available_rooms := 0\<rparr>)"
    by (simp add: sample_defs)
  have c: "hotels_file test_files ''H1'' = Some (Hotel ''H1'' ''Grand'' ''NYC'' 5)"
    by (simp add: sample_defs)
  from reserve_room_cases [of test_files "''NONEXISTENT''"] a
  have 1: "reserve_room ''NONEXISTENT'' test_files = (test_files, Inl NotFound)"
    by blast
  from reserve_room_cases [of full_files "''H_FULL''"] b
  have 2: "reserve_room ''H_FULL'' full_files = (full_files, Inl NoAvailability)"
    by (simp add: Hotel_def)
  from reserve_room_cases [of test_files "''H1''"] c
  have 3: "reserve_room ''H1'' test_files =
     (test_files\<lparr>hotels_file :=
        [''H1'' \<mapsto> \<lparr>hotel.hotel_id = ''H1'', hotel.name = ''Grand'', location = ''NYC'',
                     total_rooms = 5, available_rooms = 4\<rparr>]\<rparr>,
      Inr ())"
    by (simp add: sample_defs)
  from 1 2 3 show ?thesis by blast
qed

text \<open>
  Claim C3. \<^verbatim>\<open>Hotel.cancel_room\<close> fails with \<open>NotFound\<close> on an absent id and with
  \<open>AlreadyFull\<close> when \<open>available_rooms \<ge> total_rooms\<close>, and leaves all three
  dictionaries as they were. Otherwise it succeeds, and the state it leaves differs from
  the old one only in that this hotel's \<open>available_rooms\<close> is one more.
\<close>

theorem cancel_room_cases:
  "(hotels_file s hid = None \<longrightarrow> cancel_room hid s = (s, Inl NotFound)) \<and>
   (\<forall>h. hotels_file s hid = Some h \<and> available_rooms h \<ge> total_rooms h \<longrightarrow>
      cancel_room hid s = (s, Inl AlreadyFull)) \<and>
   (\<forall>h. hotels_file s hid = Some h \<and> available_rooms h < total_rooms h \<longrightarrow>
      cancel_room hid s =
        (s\<lparr>hotels_file := (hotels_file s)(hid \<mapsto> h\<lparr>available_rooms := available_rooms h + 1\<rparr>)\<rparr>,
         Inr ()))"
  by (simp add: cancel_room_def io_defs Let_def)

theorem cancel_room_cases_witness:
  "cancel_room ''NONEXISTENT'' test_files = (test_files, Inl NotFound) \<and>
   cancel_room ''H1'' test_files = (test_files, Inl AlreadyFull) \<and>
   cancel_room ''H_FULL'' full_files =
     (full_files\<lparr>hotels_file :=
        [''H_FULL'' \<mapsto> \<lparr>hotel.hotel_id = ''H_FULL'', hotel.name = ''Tiny'', location = ''NYC'',
                         total_rooms = 1, available_rooms = 1\<rparr>]\<rparr>,
      Inr ())"
proof -
  have a: "hotels_file test_files ''NONEXISTENT'' = None"
    by (simp add: sample_defs)
  have b: "hotels_file test_files ''H1'' = Some (Hotel ''H1'' ''Grand'' ''NYC'' 5)"
    by (simp add: sample_defs)
  have c: "hotels_file full_files ''H_FULL'' =
      Some ((Hotel ''H_FULL'' ''Tiny'' ''NYC'' 1)\<lparr>available_rooms := 0\<rparr>)"
    by (simp add: sample_defs)
  from cancel_room_cases [of test_files "''NONEXISTENT''"] a
  have 1: "cancel_room ''NONEXISTENT'' test_files = (test_files, Inl NotFound)"
    by blast
  from cancel_room_cases [of test_files "''H1''"] b
  have 2: "cancel_room ''H1'' test_files = (test_files, Inl AlreadyFull)"
    by (simp add: Hotel_def)
  from cancel_room_cases [of full_files "''H_FULL''"] c
  have 3: "cancel_room ''H_FULL'' full_files =
     (full_files\<lparr>hotels_file :=
        [''H_FULL'' \<mapsto> \<lparr>hotel.hotel_id = ''H_FULL'', hotel.name = ''Tiny'', location = ''NYC'',
                         total_rooms = 1, available_rooms = 1\<rparr>]\<rparr>,
      Inr ())"
    by (simp add: sample_defs)
  from 1 2 3 show ?thesis by blast
qed

subsection \<open>Reservation protocol\<close>

text \<open>
  Claim C4. \<^verbatim>\<open>Reservation.create_reservation\<close> fails and changes none of the three
  dictionaries when the customer is absent (\<open>CustomerNotFound\<close>), when the hotel is
  absent (\<open>HotelNotFound\<close>), and when the hotel is stored with \<open>available_rooms \<le> 0\<close>
  (\<open>NoAvailability\<close>): no reservation record is created and \<open>available_rooms\<close>
  stays. The checks run in this order, so the diagnostic is that of the first check that
  fails; the last conjunct states failure and the unchanged state for all three
  situations, whichever diagnostic is reported.
\<close>

theorem create_reservation_failures:
  "(customers_file s cid = None \<longrightarrow>
      create_reservation rid cid hid ci co s = (s, Inl CustomerNotFound)) \<and>
   (customers_file s cid \<noteq> None \<and> hotels_file s hid = None \<longrightarrow>
      create_reservation rid cid hid ci co s = (s, Inl HotelNotFound)) \<and>
   (\<forall>h. customers_file s cid \<noteq> None \<and> hotels_file s hid = Some h \<and> available_rooms h \<le> 0 \<longrightarrow>
      create_reservation rid cid hid ci co s = (s, Inl NoAvailability)) \<and>
   (customers_file s cid = None \<or> hotels_file s hid = None \<or>
    (\<exists>h. hotels_file s hid = Some h \<and> available_rooms h \<le> 0) \<longrightarrow>
      fst (create_reservation rid cid hid ci co s) = s \<and>
      isl (snd (create_reservation rid cid hid ci co s)))"
  by (auto simp add: create_reservation_def reserve_room_def io_defs split: option.splits)

theorem create_reservation_failures_witness:
  "create_reservation ''5e6f7a8b'' ''INVALID_C'' ''H1'' ''2025-01-01'' ''2025-01-05'' test_files =
     (test_files, Inl CustomerNotFound) \<and>
   create_reservation ''5e6f7a8b'' ''C1'' ''INVALID_H'' ''2025-01-01'' ''2025-01-05'' test_files =
     (test_files, Inl HotelNotFound) \<and>
   create_reservation ''5e6f7a8b'' ''C1'' ''H_FULL'' ''2025-01-03'' ''2025-01-04'' full_files =
     (full_files, Inl NoAvailability) \<and>
   fst (create_reservation ''5e6f7a8b'' ''INVALID_C'' ''INVALID_H'' ''2025-01-01'' ''2025-01-05''
          test_files) = test_files"
proof -
  have a: "customers_file test_files ''INVALID_C'' = None"
    by (simp add: sample_defs)
  have b: "customers_file test_files ''C1'' \<noteq> None \<and> hotels_file test_files ''INVALID_H'' = None"
    by (simp add: sample_defs)
  have c: "customers_file full_files ''C1'' \<noteq> None \<and>
      hotels_file full_files ''H_FULL'' =
        Some ((Hotel ''H_FULL'' ''Tiny'' ''NYC'' 1)\<lparr>available_rooms := 0\<rparr>) \<and>
      available_rooms ((Hotel ''H_FULL'' ''Tiny'' ''NYC'' 1)\<lparr>available_rooms := 0\<rparr>) \<le> 0"
    by (simp add: sample_defs)
  from create_reservation_failures
    [of test_files "''INVALID_C''" "''5e6f7a8b''" "''H1''" "''2025-01-01''" "''2025-01-05''"] a
  have 1: "create_reservation ''5e6f7a8b'' ''INVALID_C'' ''H1'' ''2025-01-01'' ''2025-01-05''
      test_files = (test_files, Inl CustomerNotFound)"
    by blast
  from create_reservation_failures
    [of test_files "''C1''" "''5e6f7a8b''" "''INVALID_H''" "''2025-01-01''" "''2025-01-05''"] b
  have 2: "create_reservation ''5e6f7a8b'' ''C1'' ''INVALID_H'' ''2025-01-01'' ''2025-01-05''
      test_files = (test_files, Inl HotelNotFound)"
    by blast
  from create_reservation_failures
    [of full_files "''C1''" "''5e6f7a8b''" "''H_FULL''" "''2025-01-03''" "''2025-01-04''"] c
  have 3: "create_reservation ''5e6f7a8b'' ''C1'' ''H_FULL'' ''2025-01-03'' ''2025-01-04''
      full_files = (full_files, Inl NoAvailability)"
    by blast
  from create_reservation_failures
    [of test_files "''INVALID_C''" "''5e6f7a8b''" "''INVALID_H''" "''2025-01-01''" "''2025-01-05''"] a
  have 4: "fst (create_reservation ''5e6f7a8b'' ''INVALID_C'' ''INVALID_H'' ''2025-01-01''
      ''2025-01-05'' test_files) = test_files"
    by blast
  from 1 2 3 4 show ?thesis by blast
qed

text \<open>
  Claim C5. When the reservation id is stored, \<^verbatim>\<open>Reservation.cancel_reservation\<close>
  removes that record, saves and returns success, also when the call of
  \<^verbatim>\<open>Hotel.cancel_room\<close> that it makes fails (the hotels dictionary is then as before).
  The hotels dictionary it leaves is the one \<^verbatim>\<open>cancel_room\<close> leaves: when that call
  succeeds, the hotel's \<open>available_rooms\<close> is one more. When the id is absent the call
  fails with \<open>NotFound\<close> and changes nothing.
\<close>

theorem cancel_reservation_cases:
  "(reservations_file s rid = None \<longrightarrow> cancel_reservation rid s = (s, Inl NotFound)) \<and>
   (\<forall>r. reservations_file s rid = Some r \<longrightarrow>
      snd (cancel_reservation rid s) = Inr () \<and>
      reservations_file (fst (cancel_reservation rid s)) = (reservations_file s)(rid := None) \<and>
      customers_file (fst (cancel_reservation rid s)) = customers_file s \<and>
      hotels_file (fst (cancel_reservation rid s)) =
        hotels_file (fst (cancel_room (reservation.hotel_id r) s)) \<and>
      (isl (snd (cancel_room (reservation.hotel_id r) s)) \<longrightarrow>
         hotels_file (fst (cancel_reservation rid s)) = hotels_file s) \<and>
      (snd (cancel_room (reservation.hotel_id r) s) = Inr () \<longrightarrow>
         (\<exists>h. hotels_file s (reservation.hotel_id r) = Some h \<and>
              hotels_file (fst (cancel_reservation rid s)) =
                (hotels_file s)(reservation.hotel_id r \<mapsto>
                   h\<lparr>available_rooms := available_rooms h + 1\<rparr>))))"
  by (auto simp add: cancel_reservation_def cancel_room_def io_defs Let_def split: option.splits)

theorem cancel_reservation_cases_witness:
  "cancel_reservation ''NONEXISTENT'' test_files = (test_files, Inl NotFound) \<and>
   snd (cancel_reservation ''1a2b3c4d'' full_files) = Inr () \<and>
   reservations_file (fst (cancel_reservation ''1a2b3c4d'' full_files)) ''1a2b3c4d'' = None \<and>
   map_option available_rooms
     (hotels_file (fst (cancel_reservation ''1a2b3c4d'' full_files)) ''H_FULL'') = Some 1 \<and>
   snd (cancel_reservation ''9f8e7d6c'' stale_files) = Inr () \<and>
   reservations_file (fst (cancel_reservation ''9f8e7d6c'' stale_files)) ''9f8e7d6c'' = None \<and>
   hotels_file (fst (cancel_reservation ''9f8e7d6c'' stale_files)) = hotels_file stale_files"
proof -
  have a: "reservations_file test_files ''NONEXISTENT'' = None"
    by (simp add: sample_defs)
  from cancel_reservation_cases [of test_files "''NONEXISTENT''"] a
  have 1: "cancel_reservation ''NONEXISTENT'' test_files = (test_files, Inl NotFound)"
    by blast
  let ?r = "Reservation ''1a2b3c4d'' ''C1'' ''H_FULL'' ''2025-01-01'' ''2025-01-02''"
  have b: "reservations_file full_files ''1a2b3c4d'' = Some ?r"
    by (simp add: sample_defs)
  have b_room: "snd (cancel_room (reservation.hotel_id ?r) full_files) = Inr ()"
    by (simp add: cancel_room_def io_defs sample_defs)
  have b_hotel: "hotels_file full_files (reservation.hotel_id ?r) =
      Some ((Hotel ''H_FULL'' ''Tiny'' ''NYC'' 1)\<lparr>available_rooms := 0\<rparr>)"
    by (simp add: sample_defs)
  from cancel_reservation_cases [of full_files "''1a2b3c4d''"] b
  have full:
    "snd (cancel_reservation ''1a2b3c4d'' full_files) = Inr ()"
    "reservations_file (fst (cancel_reservation ''1a2b3c4d'' full_files)) =
       (reservations_file full_files)(''1a2b3c4d'' := None)"
    "snd (cancel_room (reservation.hotel_id ?r) full_files) = Inr () \<longrightarrow>
       (\<exists>h. hotels_file full_files (reservation.hotel_id ?r) = Some h \<and>
            hotels_file (fst (cancel_reservation ''1a2b3c4d'' full_files)) =
              (hotels_file full_files)(reservation.hotel_id ?r \<mapsto>
                 h\<lparr>available_rooms := available_rooms h + 1\<rparr>))"
    by blast+
  from full(2) have 3:
    "reservations_file (fst (cancel_reservation ''1a2b3c4d'' full_files)) ''1a2b3c4d'' = None"
    by simp
  from full(3) b_room b_hotel have 4:
    "map_option available_rooms
       (hotels_file (fst (cancel_reservation ''1a2b3c4d'' full_files)) ''H_FULL'') = Some 1"
    by (auto simp add: Reservation_def Hotel_def)
  let ?q = "Reservation ''9f8e7d6c'' ''C1'' ''H1'' ''2025-01-01'' ''2025-01-05''"
  have c: "reservations_file stale_files ''9f8e7d6c'' = Some ?q"
    by (simp add: sample_defs)
  have c_room: "isl (snd (cancel_room (reservation.hotel_id ?q) stale_files))"
    by (simp add: cancel_room_def io_defs sample_defs)
  from cancel_reservation_cases [of stale_files "''9f8e7d6c''"] c
  have stale:
    "snd (cancel_reservation ''9f8e7d6c'' stale_files) = Inr ()"
    "reservations_file (fst (cancel_reservation ''9f8e7d6c'' stale_files)) =
       (reservations_file stale_files)(''9f8e7d6c'' := None)"
    "isl (snd (cancel_room (reservation.hotel_id ?q) stale_files)) \<longrightarrow>
       hotels_file (fst (cancel_reservation ''9f8e7d6c'' stale_files)) = hotels_file stale_files"
    by blast+
  from stale(2) have 6:
    "reservations_file (fst (cancel_reservation ''9f8e7d6c'' stale_files)) ''9f8e7d6c'' = None"
    by simp
  from stale(3) c_room have 7:
    "hotels_file (fst (cancel_reservation ''9f8e7d6c'' stale_files)) = hotels_file stale_files"
    by blast
  from 1 full(1) 3 4 stale(1) 6 7 show ?thesis by blast
qed

subsection \<open>Hotel and customer records\<close>

text \<open>
  Claim C6. For a stored hotel and a supplied \<open>total_rooms\<close> value \<open>t\<close>,
  \<^verbatim>\<open>Hotel.modify_hotel\<close> succeeds, stores \<open>total_rooms = t\<close> whatever the sign of the
  difference, and stores \<open>available_rooms = max 0 (old available + (t - old total))\<close>.
  In particular, from 10 rooms of which 10 are available, \<open>t = 15\<close> gives 15 available.
\<close>

theorem modify_hotel_total_rooms:
  "hotels_file s hid = Some h \<Longrightarrow>
   snd (modify_hotel hid nm loc (Some t) s) = Inr () \<and>
   map_option total_rooms (hotels_file (fst (modify_hotel hid nm loc (Some t) s)) hid) = Some t \<and>
   map_option available_rooms (hotels_file (fst (modify_hotel hid nm loc (Some t) s)) hid) =
     Some (max 0 (available_rooms h + (t - total_rooms h))) \<and>
   (total_rooms h = 10 \<and> available_rooms h = 10 \<and> t = 15 \<longrightarrow>
      map_option available_rooms (hotels_file (fst (modify_hotel hid nm loc (Some t) s)) hid) =
        Some 15)"
  by (auto simp add: modify_hotel_def io_defs Let_def split: option.splits)

theorem modify_hotel_total_rooms_witness:
  "snd (modify_hotel ''H1'' None None (Some 15) grand_files) = Inr () \<and>
   map_option total_rooms
     (hotels_file (fst (modify_hotel ''H1'' None None (Some 15) grand_files)) ''H1'') = Some 15 \<and>
   map_option available_rooms
     (hotels_file (fst (modify_hotel ''H1'' None None (Some 15) grand_files)) ''H1'') = Some 15 \<and>
   map_option total_rooms
     (hotels_file (fst (modify_hotel ''H1'' None None (Some 3) grand_files)) ''H1'') = Some 3 \<and>
   map_option available_rooms
     (hotels_file (fst (modify_hotel ''H1'' None None (Some 3) grand_files)) ''H1'') = Some 3"
proof -
  have a: "hotels_file grand_files ''H1'' = Some (Hotel ''H1'' ''Grand'' ''NYC'' 10)"
    by (simp add: sample_defs)
  from modify_hotel_total_rooms [OF a, of None None 15]
  have 1: "snd (modify_hotel ''H1'' None None (Some 15) grand_files) = Inr ()"
    "map_option total_rooms
       (hotels_file (fst (modify_hotel ''H1'' None None (Some 15) grand_files)) ''H1'') = Some 15"
    "map_option available_rooms
       (hotels_file (fst (modify_hotel ''H1'' None None (Some 15) grand_files)) ''H1'') = Some 15"
    by (simp_all add: Hotel_def)
  from modify_hotel_total_rooms [OF a, of None None 3]
  have 2: "map_option total_rooms
       (hotels_file (fst (modify_hotel ''H1'' None None (Some 3) grand_files)) ''H1'') = Some 3"
    "map_option available_rooms
       (hotels_file (fst (modify_hotel ''H1'' None None (Some 3) grand_files)) ''H1'') = Some 3"
    by (simp_all add: Hotel_def)
  from 1 2 show ?thesis by blast
qed

text \<open>
  Claim C7. Creating a customer or a hotel under an id that is already stored reports
  \<open>DuplicateKey\<close> (the call returns its failure value) and leaves the stored record,
  and the whole state, unchanged.
\<close>

theorem create_duplicate:
  "(customers_file s cid \<noteq> None \<longrightarrow>
      create_customer cid nm em ph s = (s, Inl DuplicateKey)) \<and>
   (hotels_file s hid \<noteq> None \<longrightarrow>
      create_hotel hid hnm loc rooms s = (s, Inl DuplicateKey))"
  by (auto simp add: create_customer_def create_hotel_def io_defs)

theorem create_duplicate_witness:
  "create_customer ''C1'' ''Bob'' ''bob@mail.com'' ''456'' test_files =
     (test_files, Inl DuplicateKey) \<and>
   create_hotel ''H1'' ''Another'' ''LA'' 5 test_files = (test_files, Inl DuplicateKey)"
proof -
  have a: "customers_file test_files ''C1'' \<noteq> None" "hotels_file test_files ''H1'' \<noteq> None"
    by (simp_all add: sample_defs)
  from create_duplicate
    [of test_files "''C1''" "''Bob''" "''bob@mail.com''" "''456''" "''H1''" "''Another''" "''LA''" 5] a
  show ?thesis by blast
qed

text \<open>
  Claim C8. For a stored customer, \<^verbatim>\<open>Customer.modify_customer\<close> succeeds and overwrites
  exactly those of \<open>name\<close>, \<open>email\<close>, \<open>phone\<close> whose argument is given and not
  empty; an argument that is omitted or the empty string leaves its field as it was.
  Nothing else in the state changes. For an absent id the call fails with \<open>NotFound\<close>.
\<close>

theorem modify_customer_cases:
  "(customers_file s cid = None \<longrightarrow> modify_customer cid nm em ph s = (s, Inl NotFound)) \<and>
   (\<forall>c. customers_file s cid = Some c \<longrightarrow>
      modify_customer cid nm em ph s =
        (s\<lparr>customers_file := (customers_file s)(cid \<mapsto>
             c\<lparr>customer.name := supplied_or nm (customer.name c),
               email := supplied_or em (email c),
               phone := supplied_or ph (phone c)\<rparr>)\<rparr>,
         Inr ()))"
  by (auto simp add: modify_customer_def supplied_or_def io_defs Let_def split: option.splits)

theorem modify_customer_cases_witness:
  "modify_customer ''NONEXISTENT'' (Some ''Ghost'') None None test_files =
     (test_files, Inl NotFound) \<and>
   modify_customer ''C1'' (Some ''Alicia'') (Some []) None test_files =
     (test_files\<lparr>customers_file :=
        [''C1'' \<mapsto> \<lparr>customer.customer_id = ''C1'', customer.name = ''Alicia'',
                     email = ''alice@mail.com'', phone = ''123''\<rparr>]\<rparr>,
      Inr ())"
proof -
  have a: "customers_file test_files ''NONEXISTENT'' = None"
    by (simp add: sample_defs)
  have b: "customers_file test_files ''C1'' =
      Some (Customer ''C1'' ''Alice'' ''alice@mail.com'' ''123'')"
    by (simp add: sample_defs)
  from modify_customer_cases [of test_files "''NONEXISTENT''" "Some ''Ghost''" None None] a
  have 1: "modify_customer ''NONEXISTENT'' (Some ''Ghost'') None None test_files =
      (test_files, Inl NotFound)"
    by blast
  from modify_customer_cases [of test_files "''C1''" "Some ''Alicia''" "Some []" None] b
  have 2: "modify_customer ''C1'' (Some ''Alicia'') (Some []) None test_files =
     (test_files\<lparr>customers_file :=
        [''C1'' \<mapsto> \<lparr>customer.customer_id = ''C1'', customer.name = ''Alicia'',
                     email = ''alice@mail.com'', phone = ''123''\<rparr>]\<rparr>,
      Inr ())"
    by (simp add: supplied_or_def sample_defs)
  from 1 2 show ?thesis by blast
qed

text \<open>
  Claim C9. On an id that is absent from the dictionary concerned, each of
  \<^verbatim>\<open>Customer.delete_customer\<close>, \<^verbatim>\<open>Customer.modify_customer\<close>,
  \<^verbatim>\<open>Hotel.delete_hotel\<close>, \<^verbatim>\<open>Hotel.modify_hotel\<close> and
  \<^verbatim>\<open>Reservation.cancel_reservation\<close> reports failure and returns the state exactly as
  it was: no dictionary is saved.
\<close>

theorem absent_id_no_op:
  "(customers_file s cid = None \<longrightarrow>
      delete_customer cid s = (s, Inl NotFound) \<and>
      modify_customer cid nm em ph s = (s, Inl NotFound)) \<and>
   (hotels_file s hid = None \<longrightarrow>
      delete_hotel hid s = (s, Inl NotFound) \<and>
      modify_hotel hid hnm loc rooms s = (s, Inl NotFound)) \<and>
   (reservations_file s rid = None \<longrightarrow> cancel_reservation rid s = (s, Inl NotFound))"
  by (simp add: delete_customer_def modify_customer_def delete_hotel_def modify_hotel_def
      cancel_reservation_def io_defs)

theorem absent_id_no_op_witness:
  "delete_customer ''NONEXISTENT'' test_files = (test_files, Inl NotFound) \<and>
   modify_customer ''NONEXISTENT'' (Some ''Ghost'') None None test_files =
     (test_files, Inl NotFound) \<and>
   delete_hotel ''NONEXISTENT'' test_files = (test_files, Inl NotFound) \<and>
   modify_hotel ''NONEXISTENT'' (Some ''Ghost'') None (Some 7) test_files =
     (test_files, Inl NotFound) \<and>
   cancel_reservation ''NONEXISTENT'' test_files = (test_files, Inl NotFound)"
proof -
  have a: "customers_file test_files ''NONEXISTENT'' = None"
    "hotels_file test_files ''NONEXISTENT'' = None"
    "reservations_file test_files ''NONEXISTENT'' = None"
    by (simp_all add: sample_defs)
  from absent_id_no_op
    [of test_files "''NONEXISTENT''" "Some ''Ghost''" None None "''NONEXISTENT''"
      "Some ''Ghost''" None "Some 7" "''NONEXISTENT''"] a
  show ?thesis by blast
qed

text \<open>
  Claim C10. Neither \<^verbatim>\<open>Hotel.create_hotel\<close> nor \<^verbatim>\<open>Hotel.modify_hotel\<close> checks the
  sign of \<open>total_rooms\<close>. For every integer \<open>t\<close>, also zero or negative,
  \<^verbatim>\<open>create_hotel\<close> under a fresh id succeeds and stores \<open>total_rooms = t\<close> and
  \<open>available_rooms = t\<close>. \<^verbatim>\<open>modify_hotel\<close> applies a supplied \<open>total_rooms = 0\<close>;
  for a negative \<open>t\<close> it stores \<open>total_rooms = t\<close> and an \<open>available_rooms\<close> that is
  at least 0, hence greater than \<open>total_rooms\<close>.
\<close>

theorem total_rooms_not_validated:
  "(hotels_file s hid = None \<longrightarrow>
      create_hotel hid nm loc t s =
        (s\<lparr>hotels_file := (hotels_file s)(hid \<mapsto>
             \<lparr>hotel.hotel_id = hid, hotel.name = nm, location = loc,
              total_rooms = t, available_rooms = t\<rparr>)\<rparr>,
         Inr \<lparr>hotel.hotel_id = hid, hotel.name = nm, location = loc,
              total_rooms = t, available_rooms = t\<rparr>)) \<and>
   (\<forall>h. hotels_file s hid = Some h \<longrightarrow>
      snd (modify_hotel hid mnm mloc (Some 0) s) = Inr () \<and>
      map_option total_rooms (hotels_file (fst (modify_hotel hid mnm mloc (Some 0) s)) hid) =
        Some 0 \<and>
      map_option available_rooms (hotels_file (fst (modify_hotel hid mnm mloc (Some 0) s)) hid) =
        Some (max 0 (available_rooms h - total_rooms h))) \<and>
   (\<forall>h. hotels_file s hid = Some h \<and> t < 0 \<longrightarrow>
      (\<exists>h'. hotels_file (fst (modify_hotel hid mnm mloc (Some t) s)) hid = Some h' \<and>
            total_rooms h' = t \<and> 0 \<le> available_rooms h' \<and>
            total_rooms h' < available_rooms h'))"
  by (auto simp add: create_hotel_def Hotel_def modify_hotel_def io_defs Let_def split: option.splits)

theorem total_rooms_not_validated_witness:
  "map_option available_rooms
     (hotels_file (fst (create_hotel ''H2'' ''Void'' ''LA'' (- 3) test_files)) ''H2'') = Some (- 3) \<and>
   \<not> isl (snd (create_hotel ''H2'' ''Void'' ''LA'' (- 3) test_files)) \<and>
   map_option total_rooms
     (hotels_file (fst (modify_hotel ''H1'' None None (Some 0) test_files)) ''H1'') = Some 0 \<and>
   (\<exists>h'. hotels_file (fst (modify_hotel ''H1'' None None (Some (- 3)) test_files)) ''H1'' = Some h' \<and>
         total_rooms h' = - 3 \<and> 0 \<le> available_rooms h' \<and>
         total_rooms h' < available_rooms h')"
proof -
  have a: "hotels_file test_files ''H2'' = None"
    by (simp add: sample_defs)
  have b: "hotels_file test_files ''H1'' = Some (Hotel ''H1'' ''Grand'' ''NYC'' 5)"
    by (simp add: sample_defs)
  from total_rooms_not_validated [of test_files "''H2''" "''Void''" "''LA''" "- 3"] a
  have 1: "create_hotel ''H2'' ''Void'' ''LA'' (- 3) test_files =
      (test_files\<lparr>hotels_file := (hotels_file test_files)(''H2'' \<mapsto>
           \<lparr>hotel.hotel_id = ''H2'', hotel.name = ''Void'', location = ''LA'',
            total_rooms = - 3, available_rooms = - 3\<rparr>)\<rparr>,
       Inr \<lparr>hotel.hotel_id = ''H2'', hotel.name = ''Void'', location = ''LA'',
            total_rooms = - 3, available_rooms = - 3\<rparr>)"
    by blast
  from total_rooms_not_validated [of test_files "''H1''" _ _ "- 3" None None] b
  have 2: "map_option total_rooms
      (hotels_file (fst (modify_hotel ''H1'' None None (Some 0) test_files)) ''H1'') = Some 0"
    and 3: "\<exists>h'. hotels_file (fst (modify_hotel ''H1'' None None (Some (- 3)) test_files)) ''H1'' =
        Some h' \<and> total_rooms h' = - 3 \<and> 0 \<le> available_rooms h' \<and>
        total_rooms h' < available_rooms h'"
    by simp_all
  from 1 2 3 show ?thesis by simp
qed

subsection \<open>Round trip between rooms and reservations\<close>

lemma live_insert:
  "reservations_file s rid = None \<Longrightarrow>
   live_reservations H
     (s\<lparr>hotels_file := hs, reservations_file := (reservations_file s)(rid \<mapsto> r)\<rparr>) =
     (if reservation.hotel_id r = H then insert rid (live_reservations H s)
      else live_reservations H s)"
  by (auto simp add: live_reservations_def)

lemma live_remove:
  "reservations_file s rid = Some r \<Longrightarrow>
   live_reservations H
     (s\<lparr>hotels_file := hs, reservations_file := (reservations_file s)(rid := None)\<rparr>) =
     (if reservation.hotel_id r = H then live_reservations H s - {rid}
      else live_reservations H s)"
  by (auto simp add: live_reservations_def)

lemma live_remove_only:
  "reservations_file s rid = Some r \<Longrightarrow>
   live_reservations H (s\<lparr>reservations_file := (reservations_file s)(rid := None)\<rparr>) =
     (if reservation.hotel_id r = H then live_reservations H s - {rid}
      else live_reservations H s)"
  by (auto simp add: live_reservations_def)

lemma live_fresh_notin: "reservations_file s rid = None \<Longrightarrow> rid \<notin> live_reservations H s"
  by (simp add: live_reservations_def)

lemma live_member:
  "reservations_file s rid = Some r \<Longrightarrow> reservation.hotel_id r = H \<Longrightarrow>
   rid \<in> live_reservations H s"
  by (simp add: live_reservations_def)

text \<open>
  A creation that draws a fresh id keeps the invariant: it either fails and changes
  nothing, or takes one room of its hotel and adds one record naming that hotel.
\<close>

lemma protocol_inv_create:
  assumes "protocol_inv H s" and "reservations_file s rid = None"
  shows "protocol_inv H (fst (create_reservation rid cid hid ci co s))"
  using assms
  by (auto simp add: protocol_inv_def rooms_match_def create_reservation_def reserve_room_def
      Reservation_def io_defs Let_def live_insert live_fresh_notin split: option.splits)

text \<open>
  A cancellation keeps the invariant. When the record names hotel \<open>H\<close>, the invariant
  gives at least one room out, so \<^verbatim>\<open>cancel_room\<close> passes its guard and returns a room.
\<close>

lemma protocol_inv_cancel:
  assumes "protocol_inv H s"
  shows "protocol_inv H (fst (cancel_reservation rid s))"
proof (cases "reservations_file s rid")
  case None
  then show ?thesis using assms by (simp add: cancel_reservation_def io_defs)
next
  case (Some r)
  show ?thesis
  proof (cases "reservation.hotel_id r = H")
    case True
    from assms obtain h where h: "hotels_file s H = Some h"
      "total_rooms h - available_rooms h = int (card (live_reservations H s))"
      and fin: "finite (live_reservations H s)"
      by (auto simp add: protocol_inv_def rooms_match_def split: option.splits)
    have mem: "rid \<in> live_reservations H s" using Some True by (rule live_member)
    with fin have pos: "0 < card (live_reservations H s)" by (auto simp add: card_gt_0_iff)
    with h have lt: "available_rooms h < total_rooms h" by simp
    have "card (live_reservations H s - {rid}) = card (live_reservations H s) - 1"
      using mem fin by simp
    with pos have
      "int (card (live_reservations H s - {rid})) = int (card (live_reservations H s)) - 1"
      by simp
    with h lt fin Some True show ?thesis
      by (simp add: protocol_inv_def rooms_match_def cancel_reservation_def cancel_room_def
          io_defs Let_def live_remove)
  next
    case False
    with assms Some show ?thesis
      by (auto simp add: protocol_inv_def rooms_match_def cancel_reservation_def cancel_room_def
          io_defs Let_def live_remove live_remove_only split: option.splits)
  qed
qed

lemma protocol_inv_perform:
  "protocol_inv H s \<Longrightarrow> draws_fresh c s \<Longrightarrow> protocol_inv H (fst (perform c s))"
  by (cases c) (simp_all add: case_prod_unfold protocol_inv_create protocol_inv_cancel)

lemma protocol_inv_run: "protocol_inv H s \<Longrightarrow> fresh_ids cs s \<Longrightarrow> protocol_inv H (run cs s)"
  by (induction cs arbitrary: s) (auto intro: protocol_inv_perform)

lemma run_colliding_calls:
  "run colliding_calls test_files =
     \<lparr>customers_file = [''C1'' \<mapsto> Customer ''C1'' ''Alice'' ''alice@mail.com'' ''123''],
      hotels_file = [''H1'' \<mapsto> (Hotel ''H1'' ''Grand'' ''NYC'' 5)\<lparr>available_rooms := 3\<rparr>],
      reservations_file =
        [''1a2b3c4d'' \<mapsto> Reservation ''1a2b3c4d'' ''C1'' ''H1'' ''2025-02-01'' ''2025-02-05'']\<rparr>"
  by (simp add: colliding_calls_def create_reservation_def reserve_room_def io_defs sample_defs
        Let_def)

lemma run_distinct_calls:
  "run distinct_calls test_files =
     \<lparr>customers_file = [''C1'' \<mapsto> Customer ''C1'' ''Alice'' ''alice@mail.com'' ''123''],
      hotels_file = [''H1'' \<mapsto> (Hotel ''H1'' ''Grand'' ''NYC'' 5)\<lparr>available_rooms := 4\<rparr>],
      reservations_file =
        [''5e6f7a8b'' \<mapsto> Reservation ''5e6f7a8b'' ''C1'' ''H1'' ''2025-02-01'' ''2025-02-05'']\<rparr>"
  by (simp add: distinct_calls_def create_reservation_def reserve_room_def cancel_reservation_def
      cancel_room_def io_defs sample_defs Let_def fun_upd_twist)

text \<open>
  Claim C1, as stated: after any sequence of successful creations and cancellations from
  a state where the hotel has all its rooms available and no reservation names it,
  \<open>total_rooms - available_rooms\<close> is the number of live reservations against the
  hotel. This fails when a creation draws an id that is already stored: on
  \<open>test_files\<close>, two successful creations that both draw \<^verbatim>\<open>1a2b3c4d\<close> take two rooms
  of \<^verbatim>\<open>H1\<close> and leave one record, the second having replaced the first.
\<close>

theorem rooms_match_counterexample:
  "hotels_file test_files ''H1'' = Some (Hotel ''H1'' ''Grand'' ''NYC'' 5) \<and>
   available_rooms (Hotel ''H1'' ''Grand'' ''NYC'' 5) = total_rooms (Hotel ''H1'' ''Grand'' ''NYC'' 5) \<and>
   live_reservations ''H1'' test_files = {} \<and>
   all_succeed colliding_calls test_files \<and>
   map_option total_rooms (hotels_file (run colliding_calls test_files) ''H1'') = Some 5 \<and>
   map_option available_rooms (hotels_file (run colliding_calls test_files) ''H1'') = Some 3 \<and>
   live_reservations ''H1'' (run colliding_calls test_files) = {''1a2b3c4d''} \<and>
   \<not> rooms_match ''H1'' (run colliding_calls test_files)"
proof -
  have 1: "hotels_file test_files ''H1'' = Some (Hotel ''H1'' ''Grand'' ''NYC'' 5)"
    by (simp add: sample_defs)
  have 2: "available_rooms (Hotel ''H1'' ''Grand'' ''NYC'' 5) =
      total_rooms (Hotel ''H1'' ''Grand'' ''NYC'' 5)"
    by (simp add: Hotel_def)
  have 3: "live_reservations ''H1'' test_files = {}"
    by (simp add: live_reservations_def sample_defs)
  have 4: "all_succeed colliding_calls test_files"
    by (simp add: colliding_calls_def create_reservation_def reserve_room_def io_defs sample_defs
        Let_def)
  have 5: "map_option total_rooms (hotels_file (run colliding_calls test_files) ''H1'') = Some 5"
    and 6: "map_option available_rooms (hotels_file (run colliding_calls test_files) ''H1'') = Some 3"
    by (simp_all add: run_colliding_calls Hotel_def)
  have 7: "live_reservations ''H1'' (run colliding_calls test_files) = {''1a2b3c4d''}"
    by (auto simp add: run_colliding_calls live_reservations_def Reservation_def
        split: if_splits)
  have 8: "\<not> rooms_match ''H1'' (run colliding_calls test_files)"
    unfolding rooms_match_def 7 by (simp add: run_colliding_calls Hotel_def)
  from 1 2 3 4 5 6 7 8 show ?thesis by blast
qed

text \<open>
  Claim C1, amended: the same, for sequences in which every creation draws an id that
  is not a key of the reservations dictionary at the moment of the call. The invariant
  behind it, \<open>protocol_inv\<close>, is kept by failing calls as well, since they change
  nothing.
\<close>

theorem rooms_match_after_run:
  assumes "hotels_file s H = Some h" and "available_rooms h = total_rooms h"
    and "live_reservations H s = {}"
    and "all_succeed cs s" and "fresh_ids cs s"
  shows "rooms_match H (run cs s)"
proof -
  from assms(1-3) have "protocol_inv H s"
    by (simp add: protocol_inv_def rooms_match_def)
  then have "protocol_inv H (run cs s)"
    using assms(5) by (rule protocol_inv_run)
  then show ?thesis by (simp add: protocol_inv_def)
qed

theorem rooms_match_after_run_witness:
  "all_succeed distinct_calls test_files \<and>
   fresh_ids distinct_calls test_files \<and>
   rooms_match ''H1'' (run distinct_calls test_files) \<and>
   map_option available_rooms (hotels_file (run distinct_calls test_files) ''H1'') = Some 4 \<and>
   live_reservations ''H1'' (run distinct_calls test_files) = {''5e6f7a8b''}"
proof -
  have 1: "hotels_file test_files ''H1'' = Some (Hotel ''H1'' ''Grand'' ''NYC'' 5)"
    by (simp add: sample_defs)
  have 2: "available_rooms (Hotel ''H1'' ''Grand'' ''NYC'' 5) =
      total_rooms (Hotel ''H1'' ''Grand'' ''NYC'' 5)"
    by (simp add: Hotel_def)
  have 3: "live_reservations ''H1'' test_files = {}"
    by (simp add: live_reservations_def sample_defs)
  have 4: "all_succeed distinct_calls test_files"
    by (simp add: distinct_calls_def create_reservation_def reserve_room_def
        cancel_reservation_def cancel_room_def io_defs sample_defs Let_def)
  have 5: "fresh_ids distinct_calls test_files"
    by (simp add: distinct_calls_def create_reservation_def reserve_room_def
        cancel_reservation_def cancel_room_def io_defs sample_defs Let_def)
  have 6: "rooms_match ''H1'' (run distinct_calls test_files)"
    using 1 2 3 4 5 by (rule rooms_match_after_run)
  have 7: "map_option available_rooms (hotels_file (run distinct_calls test_files) ''H1'') = Some 4"
    by (simp add: run_distinct_calls Hotel_def)
  have 8: "live_reservations ''H1'' (run distinct_calls test_files) = {''5e6f7a8b''}"
    by (auto simp add: run_distinct_calls live_reservations_def Reservation_def
        split: if_splits)
  from 4 5 6 7 8 show ?thesis by blast
qed

end
